theory Spec2Isabelle
  imports Complex_Main "HOL-Library.Multiset"
begin

section \<open>Errors, panics and results\<close>

text \<open>
  A Go function of the program returns a value or an \<open>error\<close>; an indexing expression
  or \<open>make\<close> with a bad argument panics instead.  Both are values of the model:
  \<open>Inl (Err e)\<close> is a returned error, \<open>Inl (Panic p)\<close> a run-time panic,
  \<open>Inr v\<close> a normal return.  A function with no indexing and no \<open>make\<close> cannot panic
  and returns \<open>error + 'a\<close>.  Calls that leave the process (HTTP endpoints, files) are
  parameters of the model that return \<open>error + 'a\<close>.
\<close>

datatype error =
    InputIsEmpty                \<comment> \<open>\<open>errors.New("input is empty")\<close>\<close>
  | EmbeddingLengthMismatch     \<comment> \<open>\<open>errors.New("embedding length mismatch")\<close>\<close>
  | EmbeddingIsZero             \<comment> \<open>\<open>errors.New("embedding is zero")\<close>\<close>
  | MetricEmbeddingIsZero nat   \<comment> \<open>\<open>fmt.Errorf("metric embedding %d is zero", i)\<close>\<close>
  | ErrVectorLengthMismatch     \<comment> \<open>the error of \<open>Embedding.DotProduct\<close>\<close>
  | NumError string             \<comment> \<open>the error of \<open>strconv.Atoi\<close> on the given text\<close>
  | HttpStatus string           \<comment> \<open>\<open>errors.New(resp.Status)\<close>\<close>
  | NotExist string             \<comment> \<open>a file error for which \<open>os.IsNotExist\<close> holds\<close>
  | External string             \<comment> \<open>any other error of a file, transport, decoder or endpoint\<close>

datatype panic =
    IndexOutOfRange             \<comment> \<open>slice index out of range\<close>
  | MakeLenOutOfRange           \<comment> \<open>\<open>make([]int, n)\<close> with negative \<open>n\<close>\<close>

datatype failure = Err error | Panic panic

text \<open>Indexing a slice with a Go \<open>int\<close>: out of range is a panic.\<close>

definition index :: "'a list \<Rightarrow> int \<Rightarrow> failure + 'a" where
  "index xs i =
     (if 0 \<le> i \<and> i < int (length xs) then Inr (xs ! nat i) else Inl (Panic IndexOutOfRange))"

section \<open>Embeddings and cosine ranking\<close>

text \<open>
  \<open>openai.Embedding\<close> carries the vector (its field \<open>Embedding\<close>, here \<open>Vector\<close>) and
  the \<open>Index\<close> the endpoint reported for it.  The components are \<open>float32\<close> in the
  program; the model computes with exact reals, so rounding, overflow and NaN are outside
  it.
\<close>

record Embedding =
  Vector :: "real list"
  Index :: int

record Score =
  Index :: int
  Value :: real

text \<open>
  \<open>Embedding.DotProduct\<close> of the client library: an error when the lengths differ,
  otherwise the sum of the componentwise products.
\<close>

definition DotProduct :: "Embedding \<Rightarrow> Embedding \<Rightarrow> error + real" where
  "DotProduct e other =
     (if length (Vector e) \<noteq> length (Vector other) then Inl ErrVectorLengthMismatch
      else Inr (\<Sum>(a, b) \<leftarrow> zip (Vector e) (Vector other). a * b))"

text \<open>
  \<open>calcEmbeddings\<close>: the parameter \<open>CreateEmbeddings\<close> is the remote call, returning
  the endpoint's error or \<open>response.Data\<close>.
\<close>

definition calcEmbeddings ::
  "(string list \<Rightarrow> error + Embedding list) \<Rightarrow> string list \<Rightarrow> error + Embedding list" where
  "calcEmbeddings CreateEmbeddings input =
     (if length input = 0 then Inl InputIsEmpty
      else case CreateEmbeddings input of
             Inl err \<Rightarrow> Inl err
           | Inr data \<Rightarrow>
               if length data \<noteq> length input then Inl EmbeddingLengthMismatch
               else Inr data)"

text \<open>
  The comparator handed to \<open>slices.SortFunc\<close>, and the sort itself.  On slices of at
  most twelve elements the library runs the insertion sort below (each element moves left
  while the comparator says it is smaller than its left neighbour); on longer slices it
  promises only a permutation in the comparator's order, which is all the theorems use.
  \<open>moveLeft\<close> works on the reversed sorted prefix.
\<close>

definition cmpScore :: "Score \<Rightarrow> Score \<Rightarrow> int" where
  "cmpScore a b = (if Value a > Value b then -1 else if Value a < Value b then 1 else 0)"

fun moveLeft :: "('a \<Rightarrow> 'a \<Rightarrow> int) \<Rightarrow> 'a \<Rightarrow> 'a list \<Rightarrow> 'a list" where
  "moveLeft cmp x [] = [x]"
| "moveLeft cmp x (y # ys) = (if cmp x y < 0 then y # moveLeft cmp x ys else x # y # ys)"

definition SortFunc :: "'a list \<Rightarrow> ('a \<Rightarrow> 'a \<Rightarrow> int) \<Rightarrow> 'a list" where
  "SortFunc xs cmp = rev (foldl (\<lambda>prefix x. moveLeft cmp x prefix) [] xs)"

text \<open>The scoring loop of \<open>findSimilar\<close>, one corpus embedding per step.\<close>

fun scoreLoop :: "Embedding \<Rightarrow> real \<Rightarrow> nat \<Rightarrow> Embedding list \<Rightarrow> error + Score list" where
  "scoreLoop emb normA i [] = Inr []"
| "scoreLoop emb normA i (v # vs) =
     (case DotProduct v v of
        Inl err \<Rightarrow> Inl err
      | Inr dotB \<Rightarrow>
          if dotB \<le> 0 then Inl (MetricEmbeddingIsZero i)
          else
            (let normB = sqrt dotB in
             (case DotProduct emb v of
                Inl err \<Rightarrow> Inl err
              | Inr dot \<Rightarrow>
                  (case scoreLoop emb normA (Suc i) vs of
                     Inl err \<Rightarrow> Inl err
                   | Inr scores \<Rightarrow>
                       Inr (\<lparr>Score.Index = Embedding.Index v, Value = dot / normA / normB\<rparr>
                            # scores)))))"

definition findSimilar ::
  "(string list \<Rightarrow> error + Embedding list) \<Rightarrow> string \<Rightarrow> Embedding list \<Rightarrow> int \<Rightarrow> failure + int list" where
  "findSimilar CreateEmbeddings query embeddings topN0 =
     (let topN = (if topN0 > int (length embeddings) then int (length embeddings) else topN0) in
      case calcEmbeddings CreateEmbeddings [query] of
        Inl err \<Rightarrow> Inl (Err err)
      | Inr embs \<Rightarrow>
          (case index embs 0 of
             Inl f \<Rightarrow> Inl f
           | Inr emb \<Rightarrow>
               (case DotProduct emb emb of
                  Inl err \<Rightarrow> Inl (Err err)
                | Inr dotA \<Rightarrow>
                    if dotA \<le> 0 then Inl (Err EmbeddingIsZero)
                    else
                      (let normA = sqrt dotA in
                       (case scoreLoop emb normA 0 embeddings of
                          Inl err \<Rightarrow> Inl (Err err)
                        | Inr scores0 \<Rightarrow>
                            (let scores = SortFunc scores0 cmpScore in
                             if topN < 0 then Inl (Panic MakeLenOutOfRange)
                             else Inr (map Score.Index (take (nat topN) scores))))))))"

section \<open>Strings\<close>

text \<open>
  Go strings are byte sequences, and so is \<open>string\<close>.  The library functions the
  program calls on them are modelled after their documentation: \<open>strings.SplitN(s, sep, 2)\<close>
  and \<open>strings.Split\<close> for a one-byte separator, \<open>strings.TrimSuffix\<close>,
  \<open>strconv.Atoi\<close> (an optional sign, then decimal digits only, within 64 bits) and
  the \<open>%d\<close> verb of \<open>fmt.Sprintf\<close> on a non-negative number.
\<close>

definition newline :: char where
  "newline = CHR 0x0A"

definition SplitN2 :: "string \<Rightarrow> char \<Rightarrow> string list" where
  "SplitN2 s sep =
     (if sep \<in> set s
      then [takeWhile (\<lambda>c. c \<noteq> sep) s, tl (dropWhile (\<lambda>c. c \<noteq> sep) s)]
      else [s])"

fun Split :: "string \<Rightarrow> char \<Rightarrow> string list" where
  "Split [] sep = [[]]"
| "Split (c # cs) sep =
     (if c = sep then [] # Split cs sep
      else (case Split cs sep of [] \<Rightarrow> [[c]] | part # parts \<Rightarrow> (c # part) # parts))"

definition TrimSuffix :: "string \<Rightarrow> string \<Rightarrow> string" where
  "TrimSuffix s suffix =
     (if length suffix \<le> length s \<and> drop (length s - length suffix) s = suffix
      then take (length s - length suffix) s
      else s)"

definition isDigit :: "char \<Rightarrow> bool" where
  "isDigit ch = (48 \<le> (of_char ch :: nat) \<and> (of_char ch :: nat) \<le> 57)"

definition digitVal :: "char \<Rightarrow> int" where
  "digitVal ch = int (of_char ch) - 48"

definition Atoi :: "string \<Rightarrow> error + int" where
  "Atoi s0 =
     (let signed = (s0 \<noteq> [] \<and> (hd s0 = CHR ''-'' \<or> hd s0 = CHR ''+''));
          s = (if signed then tl s0 else s0)
      in if s = [] then Inl (NumError s0)
         else if list_ex (\<lambda>ch. \<not> isDigit ch) s then Inl (NumError s0)
         else
           (let n = foldl (\<lambda>n ch. n * 10 + digitVal ch) 0 s;
                v = (if hd s0 = CHR ''-'' then - n else n)
            in if v < - (2 ^ 63) \<or> 2 ^ 63 - 1 < v then Inl (NumError s0) else Inr v))"

fun itoa :: "nat \<Rightarrow> string" where
  "itoa n = (if n < 10 then [''0123456789'' ! n] else itoa (n div 10) @ [''0123456789'' ! (n mod 10)])"

declare itoa.simps [simp del]

section \<open>Loading the corpus\<close>

record Document =
  DocId :: int
  Title :: string
  Content :: string
  Summary :: string

text \<open>The three globals \<open>Init\<close> fills: \<open>allDocIds\<close>, \<open>allDocuments\<close>, \<open>allEmbeddings\<close>.\<close>

record Corpus =
  allDocIds :: "int \<rightharpoonup> int"
  allDocuments :: "Document list"
  allEmbeddings :: "Embedding list"

text \<open>
  What \<open>Init\<close> reads from disk: the result of reading \<open>files.txt\<close>, the result of
  opening the summary file (on success the lines its scanner yields), and the result of
  reading \<open><docId>.md\<close> for each id.
\<close>

record Files =
  ReadFilesTxt :: "error + string"
  SummaryLines :: "error + string list"
  ReadMarkdown :: "int \<Rightarrow> error + string"

definition IsNotExist :: "error \<Rightarrow> bool" where
  "IsNotExist err = (case err of NotExist _ \<Rightarrow> True | _ \<Rightarrow> False)"

definition trimSuffixes :: "string \<Rightarrow> string" where
  "trimSuffixes title =
     foldl TrimSuffix title [''.pdf'', ''.doc'', ''.docx'', ''.xls'', ''.xlsx'', ''.ppt'', ''.pptx'']"

text \<open>The loop over the lines of the title manifest.\<close>

fun titleLoop :: "(int \<rightharpoonup> string) \<Rightarrow> string list \<Rightarrow> (int \<rightharpoonup> string)" where
  "titleLoop titles [] = titles"
| "titleLoop titles (line # lines) =
     (let strs = SplitN2 line (CHR '':'') in
      if length strs \<noteq> 2 then titleLoop titles lines
      else (case Atoi (strs ! 0) of
              Inl err \<Rightarrow> titleLoop titles lines
            | Inr v \<Rightarrow> titleLoop (titles(v \<mapsto> trimSuffixes (strs ! 1))) lines))"

definition loadTitles :: "Files \<Rightarrow> error + (int \<rightharpoonup> string)" where
  "loadTitles fs =
     (case ReadFilesTxt fs of
        Inr files \<Rightarrow> Inr (titleLoop Map.empty (Split files newline))
      | Inl err \<Rightarrow> if \<not> IsNotExist err then Inl err else Inr Map.empty)"

text \<open>The scanner loop over the summary manifest.  \<open>Loading\<close> holds what the loop has built
  so far: \<open>idx\<close>, \<open>allDocIds\<close>, \<open>allDocuments\<close> and \<open>summaries\<close>.\<close>

record Loading =
  curIdx :: int
  curDocIds :: "int \<rightharpoonup> int"
  curDocuments :: "Document list"
  curSummaries :: "string list"

fun summaryLoop ::
  "(int \<Rightarrow> error + string) \<Rightarrow> (int \<rightharpoonup> string) \<Rightarrow> Loading \<Rightarrow> string list \<Rightarrow> error + Loading" where
  "summaryLoop readMd titles st [] = Inr st"
| "summaryLoop readMd titles st (line # lines) =
     (let strs = SplitN2 line (CHR '':'') in
      if length strs \<noteq> 2 then summaryLoop readMd titles st lines
      else (case Atoi (strs ! 0) of
              Inl err \<Rightarrow> Inl err
            | Inr docId \<Rightarrow>
                (let summary = strs ! 1 in
                 (case readMd docId of
                    Inl err \<Rightarrow> Inl err
                  | Inr content \<Rightarrow>
                      (let doc0 = \<lparr>DocId = docId, Title = [], Content = content, Summary = summary\<rparr>;
                           doc = (case titles docId of
                                    Some title \<Rightarrow> doc0\<lparr>Title := title\<rparr>
                                  | None \<Rightarrow> doc0)
                       in summaryLoop readMd titles
                            \<lparr>curIdx = curIdx st + 1,
                             curDocIds = (curDocIds st)(docId \<mapsto> curIdx st),
                             curDocuments = curDocuments st @ [doc],
                             curSummaries = curSummaries st @ [summary]\<rparr>
                            lines)))))"

definition Init :: "(string list \<Rightarrow> error + Embedding list) \<Rightarrow> Files \<Rightarrow> error + Corpus" where
  "Init CreateEmbeddings fs =
     (case loadTitles fs of
        Inl err \<Rightarrow> Inl err
      | Inr titles \<Rightarrow>
          (case SummaryLines fs of
             Inl err \<Rightarrow> Inl err
           | Inr lines \<Rightarrow>
               (case summaryLoop (ReadMarkdown fs) titles
                       \<lparr>curIdx = 0, curDocIds = Map.empty, curDocuments = [], curSummaries = []\<rparr> lines of
                  Inl err \<Rightarrow> Inl err
                | Inr st \<Rightarrow>
                    (case calcEmbeddings CreateEmbeddings (curSummaries st) of
                       Inl err \<Rightarrow> Inl err
                     | Inr embs \<Rightarrow>
                         Inr \<lparr>allDocIds = curDocIds st, allDocuments = curDocuments st,
                              allEmbeddings = embs\<rparr>))))"

section \<open>Retrieval\<close>

record Config =
  ModelWithoutThinking :: string
  ModelRerank :: string
  TopEmb :: int
  TopRerank :: int

record RerankRequest =
  Model :: string
  Query :: string
  Documents :: "string list"
  TopN :: int

record RerankResult =
  Index :: int
  RelevanceScore :: real

text \<open>
  The HTTP exchange of \<open>rerank\<close>: the status of the response, and its body as
  \<open>io.ReadAll\<close> and \<open>json.Unmarshal\<close> deliver it (an error, or the decoded results).
\<close>

record HttpResponse =
  StatusCode :: int
  Status :: string
  Body :: "error + RerankResult list"

definition rerank ::
  "Config \<Rightarrow> (RerankRequest \<Rightarrow> error + HttpResponse) \<Rightarrow> string \<Rightarrow> string list \<Rightarrow> int
     \<Rightarrow> error + RerankResult list" where
  "rerank cfg Do query documents topN =
     (case Do \<lparr>Model = ModelRerank cfg, Query = query, Documents = documents, TopN = topN\<rparr> of
        Inl err \<Rightarrow> Inl err
      | Inr resp \<Rightarrow>
          if StatusCode resp \<noteq> 200 then Inl (HttpStatus (Status resp))
          else Body resp)"

text \<open>The fixed texts of \<open>RunRAG\<close>, as the bytes of their UTF-8 encoding.\<close>

definition textFound :: string where
  "textFound = [
      CHR 0xE6, CHR 0xA3, CHR 0x80, CHR 0xE7, CHR 0xB4, CHR 0xA2, CHR 0xE5, CHR 0x88,
      CHR 0xB0, CHR 0xE4, CHR 0xBB, CHR 0xA5, CHR 0xE4, CHR 0xB8, CHR 0x8B]"

definition textDocuments :: string where
  "textDocuments = [
      CHR 0xE7, CHR 0xAF, CHR 0x87, CHR 0xE6, CHR 0x96, CHR 0x87, CHR 0xE6, CHR 0xA1,
      CHR 0xA3, CHR 0xEF, CHR 0xBC, CHR 0x9A, CHR 0x0A, CHR 0x0A]"

definition textOrdinal :: string where
  "textOrdinal = [
      CHR 0xE7, CHR 0xAC, CHR 0xAC]"

definition textDocument :: string where
  "textDocument = [
      CHR 0xE7, CHR 0xAF, CHR 0x87, CHR 0xE6, CHR 0x96, CHR 0x87, CHR 0xE6, CHR 0xA1,
      CHR 0xA3]"

definition textTitleOpen :: string where
  "textTitleOpen = [
      CHR 0xEF, CHR 0xBC, CHR 0x8C, CHR 0xE6, CHR 0xA0, CHR 0x87, CHR 0xE9, CHR 0xA2,
      CHR 0x98, CHR 0xE4, CHR 0xB8, CHR 0xBA, CHR 0xE3, CHR 0x80, CHR 0x8C]"

definition textTitleClose :: string where
  "textTitleClose = [
      CHR 0xE3, CHR 0x80, CHR 0x8D]"

definition textColon :: string where
  "textColon = [
      CHR 0xEF, CHR 0xBC, CHR 0x9A, CHR 0x0A, CHR 0x0A]"

text \<open>The three loops of \<open>RunRAG\<close>.\<close>

fun candidateLoop :: "Document list \<Rightarrow> int list \<Rightarrow> failure + (int list \<times> string list)" where
  "candidateLoop docs [] = Inr ([], [])"
| "candidateLoop docs (i # resEmb) =
     (case index docs i of
        Inl f \<Rightarrow> Inl f
      | Inr doc \<Rightarrow>
          (case candidateLoop docs resEmb of
             Inl f \<Rightarrow> Inl f
           | Inr (docIds, summaries) \<Rightarrow> Inr (DocId doc # docIds, Summary doc # summaries)))"

fun rerankLoop :: "int list \<Rightarrow> RerankResult list \<Rightarrow> failure + int list" where
  "rerankLoop docIds [] = Inr []"
| "rerankLoop docIds (v # results) =
     (case index docIds (RerankResult.Index v) of
        Inl f \<Rightarrow> Inl f
      | Inr docId \<Rightarrow>
          (case rerankLoop docIds results of
             Inl f \<Rightarrow> Inl f
           | Inr docIdsRerank \<Rightarrow> Inr (docId # docIdsRerank)))"

fun formatLoop :: "Corpus \<Rightarrow> string \<Rightarrow> nat \<Rightarrow> int list \<Rightarrow> failure + string" where
  "formatLoop corpus result i [] = Inr result"
| "formatLoop corpus result i (docId # docIdsRerank) =
     (let j = (case allDocIds corpus docId of Some k \<Rightarrow> k | None \<Rightarrow> 0) in
      (case index (allDocuments corpus) j of
         Inl f \<Rightarrow> Inl f
       | Inr doc \<Rightarrow>
           (let result1 = result @ textOrdinal @ itoa (i + 1) @ textDocument;
                result2 = (if length (Title doc) > 0
                           then result1 @ textTitleOpen @ Title doc @ textTitleClose
                           else result1);
                result3 = result2 @ textColon @ Content doc @ [newline, newline]
            in formatLoop corpus result3 (Suc i) docIdsRerank)))"

definition RunRAG ::
  "Config \<Rightarrow> (string list \<Rightarrow> error + Embedding list) \<Rightarrow> (RerankRequest \<Rightarrow> error + HttpResponse)
     \<Rightarrow> Corpus \<Rightarrow> string \<Rightarrow> failure + string" where
  "RunRAG cfg CreateEmbeddings Do corpus question =
     (case findSimilar CreateEmbeddings question (allEmbeddings corpus) (TopEmb cfg) of
        Inl f \<Rightarrow> Inl f
      | Inr resEmb \<Rightarrow>
          (case candidateLoop (allDocuments corpus) resEmb of
             Inl f \<Rightarrow> Inl f
           | Inr (docIds, summaries) \<Rightarrow>
               (case rerank cfg Do question summaries (TopRerank cfg) of
                  Inl err \<Rightarrow> Inl (Err err)
                | Inr results \<Rightarrow>
                    (case rerankLoop docIds results of
                       Inl f \<Rightarrow> Inl f
                     | Inr docIdsRerank \<Rightarrow>
                         formatLoop corpus
                           (textFound @ itoa (length docIdsRerank) @ textDocuments)
                           0 docIdsRerank))))"

section \<open>The chat handler\<close>

text \<open>
  A chat message with the two fields the handler reads and writes.  A request has the
  three fields the handler assigns; every other field of the caller's request
  (temperature, max_tokens, ...) is the extension part \<open>more\<close> of the record.
\<close>

record ChatCompletionMessage =
  Role :: string
  Content :: string

record ChatCompletionRequest =
  Model :: string
  Messages :: "ChatCompletionMessage list"
  Stream :: bool

record ChatCompletionChoice =
  Message :: ChatCompletionMessage

record ChatCompletionResponse =
  Choices :: "ChatCompletionChoice list"

text \<open>
  An upstream stream, as \<open>RecvRaw\<close> delivers it: the frames, then the error that ends
  it, which is \<open>io.EOF\<close> or another error (the deadline of the call bounds every stream).
\<close>

datatype recvError = EOF | RecvFailed error

record ChatCompletionStream =
  Frames :: "string list"
  Ending :: recvError

text \<open>The three outbound calls of the handler, in a trace, and what it writes to the caller.\<close>

datatype 'x outbound =
    CreateChatCompletionCall "'x ChatCompletionRequest_scheme"
  | RunRAGCall string
  | CreateChatCompletionStreamCall "'x ChatCompletionRequest_scheme"

datatype written =
    SetHeader string string     \<comment> \<open>\<open>c.Writer.Header().Set\<close>\<close>
  | JSON nat error              \<comment> \<open>\<open>c.JSON(status, gin.H{"error": err.Error()})\<close>\<close>
  | Write string                \<comment> \<open>\<open>Write\<close> of raw bytes\<close>

definition ChatMessageRoleSystem :: string where
  "ChatMessageRoleSystem = ''system''"

definition ChatMessageRoleUser :: string where
  "ChatMessageRoleUser = ''user''"

definition textSummarize :: string where
  "textSummarize = [
      CHR 0xE8, CHR 0xAF, CHR 0xB7, CHR 0xE6, CHR 0xA0, CHR 0xB9, CHR 0xE6, CHR 0x8D,
      CHR 0xAE, CHR 0xE4, CHR 0xBB, CHR 0xA5, CHR 0xE4, CHR 0xB8, CHR 0x8B, CHR 0xE6,
      CHR 0x8F, CHR 0x90, CHR 0xE4, CHR 0xBE, CHR 0x9B, CHR 0xE7, CHR 0x9A, CHR 0x84,
      CHR 0xE8, CHR 0x81, CHR 0x8A, CHR 0xE5, CHR 0xA4, CHR 0xA9, CHR 0xE8, CHR 0xAE,
      CHR 0xB0, CHR 0xE5, CHR 0xBD, CHR 0x95, CHR 0xE5, CHR 0x8E, CHR 0x86, CHR 0xE5,
      CHR 0x8F, CHR 0xB2, CHR 0xEF, CHR 0xBC, CHR 0x8C, CHR 0xE6, CHR 0x80, CHR 0xBB,
      CHR 0xE7, CHR 0xBB, CHR 0x93, CHR 0xE5, CHR 0x87, CHR 0xBA, CHR 0xE4, CHR 0xB8,
      CHR 0x80, CHR 0xE6, CHR 0x9D, CHR 0xA1, CHR 0xE7, CHR 0x94, CHR 0xA8, CHR 0xE6,
      CHR 0x88, CHR 0xB7, CHR 0xE7, CHR 0x9A, CHR 0x84, CHR 0xE5, CHR 0x8E, CHR 0x9F,
      CHR 0xE5, CHR 0xA7, CHR 0x8B, CHR 0xE9, CHR 0x97, CHR 0xAE, CHR 0xE9, CHR 0xA2,
      CHR 0x98, CHR 0xE3, CHR 0x80, CHR 0x82]"

definition textAnswer :: string where
  "textAnswer = [
      CHR 0xE8, CHR 0xAF, CHR 0xB7, CHR 0xE6, CHR 0xA0, CHR 0xB9, CHR 0xE6, CHR 0x8D,
      CHR 0xAE, CHR 0xE4, CHR 0xBB, CHR 0xA5, CHR 0xE4, CHR 0xB8, CHR 0x8B, CHR 0xE6,
      CHR 0xA3, CHR 0x80, CHR 0xE7, CHR 0xB4, CHR 0xA2, CHR 0xE5, CHR 0x88, CHR 0xB0,
      CHR 0xE7, CHR 0x9A, CHR 0x84, CHR 0xE4, CHR 0xBF, CHR 0xA1, CHR 0xE6, CHR 0x81,
      CHR 0xAF, CHR 0xEF, CHR 0xBC, CHR 0x8C, CHR 0xE5, CHR 0x9B, CHR 0x9E, CHR 0xE7,
      CHR 0xAD, CHR 0x94, CHR 0xE7, CHR 0x94, CHR 0xA8, CHR 0xE6, CHR 0x88, CHR 0xB7,
      CHR 0xE7, CHR 0x9A, CHR 0x84, CHR 0xE5, CHR 0x8E, CHR 0x9F, CHR 0xE5, CHR 0xA7,
      CHR 0x8B, CHR 0xE9, CHR 0x97, CHR 0xAE, CHR 0xE9, CHR 0xA2, CHR 0x98, CHR 0xEF,
      CHR 0xBC, CHR 0x9A]"

text \<open>The loop that builds \<open>chatHistory\<close>.\<close>

fun historyLoop :: "string \<Rightarrow> nat \<Rightarrow> ChatCompletionMessage list \<Rightarrow> string" where
  "historyLoop chatHistory i [] = chatHistory"
| "historyLoop chatHistory i (msg # msgs) =
     (if Role msg = ChatMessageRoleSystem then historyLoop chatHistory (Suc i) msgs
      else historyLoop
             (chatHistory @ itoa i @ ''. [role='' @ Role msg @ ''] '' @ Content msg
                @ [newline, newline])
             (Suc i) msgs)"

text \<open>
  The step function handed to \<open>c.Stream\<close>, run until it returns false.  The caller
  going away, which also ends \<open>c.Stream\<close>, is outside the model.
\<close>

fun streamLoop :: "string list \<Rightarrow> recvError \<Rightarrow> written list" where
  "streamLoop [] EOF = []"
| "streamLoop [] (RecvFailed err) = [JSON 500 err]"
| "streamLoop (buf # bufs) ending =
     [Write ''data: '', Write buf, Write [newline, newline]] @ streamLoop bufs ending"

definition streamResponse :: "ChatCompletionStream \<Rightarrow> written list" where
  "streamResponse stream =
     [SetHeader ''Content-Type'' ''text/event-stream'',
      SetHeader ''Cache-Control'' ''no-cache'',
      SetHeader ''Connection'' ''keep-alive'']
     @ streamLoop (Frames stream) (Ending stream)
     @ [Write (''data: [DONE]'' @ [newline, newline])]"

text \<open>
  The remote calls of the handler and of \<open>RunRAG\<close>.
\<close>

record 'x Remote =
  CreateEmbeddings :: "string list \<Rightarrow> error + Embedding list"
  Do :: "RerankRequest \<Rightarrow> error + HttpResponse"
  CreateChatCompletion :: "'x ChatCompletionRequest_scheme \<Rightarrow> error + ChatCompletionResponse"
  CreateChatCompletionStream :: "'x ChatCompletionRequest_scheme \<Rightarrow> error + ChatCompletionStream"

text \<open>
  \<open>chatApiHandler\<close>: the argument \<open>bound\<close> is the result of \<open>c.ShouldBindJSON\<close>.
  The result is the trace of outbound calls and either a panic or what was written to
  the caller.  The deadlines of the two completion calls show as errors of those calls.
\<close>

definition chatApiHandler ::
  "Config \<Rightarrow> 'x Remote \<Rightarrow> Corpus \<Rightarrow> error + 'x ChatCompletionRequest_scheme
     \<Rightarrow> 'x outbound list \<times> (panic + written list)" where
  "chatApiHandler cfg remote corpus bound =
     (case bound of
        Inl err \<Rightarrow> ([], Inr [JSON 400 err])
      | Inr request \<Rightarrow>
          (case index (Messages request) 0 of
             Inl f \<Rightarrow> ([], Inl IndexOutOfRange)
           | Inr first \<Rightarrow>
               (let systemPrompt = (if Role first = ChatMessageRoleSystem then Content first else []);
                    model = ChatCompletionRequest.Model request;
                    chatHistory = historyLoop [] 0 (Messages request);
                    request1 = request
                      \<lparr>ChatCompletionRequest.Model := ModelWithoutThinking cfg,
                       Stream := False,
                       Messages :=
                         [\<lparr>Role = ChatMessageRoleSystem, Content = textSummarize\<rparr>,
                          \<lparr>Role = ChatMessageRoleUser, Content = chatHistory\<rparr>]\<rparr>
                in (case CreateChatCompletion remote request1 of
                      Inl err \<Rightarrow> ([CreateChatCompletionCall request1], Inr [JSON 500 err])
                    | Inr response \<Rightarrow>
                        (case index (Choices response) 0 of
                           Inl f \<Rightarrow> ([CreateChatCompletionCall request1], Inl IndexOutOfRange)
                         | Inr choice \<Rightarrow>
                             (let question = Content (Message choice);
                                  calls2 = [CreateChatCompletionCall request1, RunRAGCall question]
                              in (case RunRAG cfg (CreateEmbeddings remote) (Do remote) corpus question of
                                    Inl (Panic p) \<Rightarrow> (calls2, Inl p)
                                  | Inl (Err err) \<Rightarrow> (calls2, Inr [JSON 500 err])
                                  | Inr result \<Rightarrow>
                                      (let request2 = request1
                                             \<lparr>ChatCompletionRequest.Model := model,
                                              Stream := True,
                                              Messages :=
                                                [\<lparr>Role = ChatMessageRoleSystem, Content = systemPrompt\<rparr>,
                                                 \<lparr>Role = ChatMessageRoleUser,
                                                  Content = textAnswer @ question @ [newline, newline]
                                                              @ result\<rparr>]\<rparr>;
                                           calls3 = calls2 @ [CreateChatCompletionStreamCall request2]
                                       in (case CreateChatCompletionStream remote request2 of
                                             Inl err \<Rightarrow> (calls3, Inr [JSON 500 err])
                                           | Inr stream \<Rightarrow>
                                               (calls3, Inr (streamResponse stream)))))))))))"

section \<open>Cosine similarity as specified\<close>



section \<open>A small installation\<close>

text \<open>
  Concrete endpoints, files and a corpus of two documents, on which the theorems below are
  instantiated.  \<open>unitQuery\<close> is an embedding endpoint that answers every text with the
  vector \<open>(1, 0)\<close>, \<open>zeroQuery\<close> one that answers with the zero vector, and
  \<open>shortAnswer\<close> one that answers with no vector at all.
\<close>

definition unitQuery :: "string list \<Rightarrow> error + Embedding list" where
  "unitQuery input = Inr (map (\<lambda>_. \<lparr>Vector = [1, 0], Embedding.Index = 0\<rparr>) input)"

definition zeroQuery :: "string list \<Rightarrow> error + Embedding list" where
  "zeroQuery input = Inr (map (\<lambda>_. \<lparr>Vector = [0, 0], Embedding.Index = 0\<rparr>) input)"

definition shortAnswer :: "string list \<Rightarrow> error + Embedding list" where
  "shortAnswer input = Inr []"

definition threeVectors :: "Embedding list" where
  "threeVectors =
     [\<lparr>Vector = [0, 1], Embedding.Index = 0\<rparr>,
      \<lparr>Vector = [2, 0], Embedding.Index = 1\<rparr>,
      \<lparr>Vector = [-1, 0], Embedding.Index = 2\<rparr>]"

definition diskWith :: "string \<Rightarrow> string list \<Rightarrow> Files" where
  "diskWith titles lines =
     \<lparr>ReadFilesTxt = Inr titles,
      SummaryLines = Inr lines,
      ReadMarkdown = (\<lambda>docId. if docId = 7 then Inr ''seven''
                               else if docId = 9 then Inr ''nine''
                               else Inl (NotExist ''markdown''))\<rparr>"

definition defaultConfig :: Config where
  "defaultConfig =
     \<lparr>ModelWithoutThinking = ''Qwen/Qwen2.5-7B-Instruct'',
      ModelRerank = ''BAAI/bge-reranker-v2-m3'',
      TopEmb = 25,
      TopRerank = 5\<rparr>"

definition twoDocuments :: Corpus where
  "twoDocuments =
     \<lparr>allDocIds = [7 \<mapsto> 0, 9 \<mapsto> 1],
      allDocuments =
        [\<lparr>DocId = 7, Title = ''invoice'', Content = ''seven'', Summary = ''invoice summary''\<rparr>,
         \<lparr>DocId = 9, Title = [], Content = ''nine'', Summary = ''minutes''\<rparr>],
      allEmbeddings =
        [\<lparr>Vector = [2, 0], Embedding.Index = 0\<rparr>, \<lparr>Vector = [0, 1], Embedding.Index = 1\<rparr>]\<rparr>"

definition rerankAnswer :: "int list \<Rightarrow> RerankRequest \<Rightarrow> error + HttpResponse" where
  "rerankAnswer indices req =
     Inr \<lparr>StatusCode = 200, Status = ''200 OK'',
          Body = Inr (map (\<lambda>i. \<lparr>RerankResult.Index = i, RelevanceScore = 1\<rparr>) indices)\<rparr>"

text \<open>A caller's request with two more fields than the handler touches.\<close>

record SampledRequest = ChatCompletionRequest +
  MaxTokens :: int
  Temperature :: real

text \<open>
  Completion endpoints that answer every request with the given response and stream,
  beside \<open>unitQuery\<close> and a reranker that prefers document 9.
\<close>

definition cannedRemote :: "ChatCompletionResponse \<Rightarrow> ChatCompletionStream \<Rightarrow> 'x Remote" where
  "cannedRemote response stream =
     \<lparr>CreateEmbeddings = unitQuery,
      Do = rerankAnswer [1, 0],
      CreateChatCompletion = (\<lambda>request. Inr response),
      CreateChatCompletionStream = (\<lambda>request. Inr stream)\<rparr>"

definition standalone :: ChatCompletionResponse where
  "standalone = \<lparr>Choices = [\<lparr>Message = \<lparr>Role = ''assistant'', Content = ''What is X?''\<rparr>\<rparr>]\<rparr>"

definition terse :: "ChatCompletionMessage list" where
  "terse = [\<lparr>Role = ''system'', Content = ''Be terse''\<rparr>, \<lparr>Role = ''user'', Content = ''What is X?''\<rparr>]"

definition twoDocumentsContext :: string where
  "twoDocumentsContext =
     textFound @ ''2'' @ textDocuments
     @ textOrdinal @ ''1'' @ textDocument @ textColon @ ''nine'' @ [newline, newline]
     @ textOrdinal @ ''2'' @ textDocument @ textTitleOpen @ ''invoice'' @ textTitleClose
     @ textColon @ ''seven'' @ [newline, newline]"

section \<open>Properties of the embedding client\<close>

text \<open>
  C3.  For a non-empty input, \<open>calcEmbeddings\<close> fails with the length-mismatch error
  whenever the endpoint answers with a number of vectors different from the number of
  texts; it returns the endpoint's vectors when the numbers agree; and whatever it
  returns has one vector per input text.
\<close>

theorem calcEmbeddings_one_vector_per_text:
  assumes "input \<noteq> []"
  shows "(endpoint input = Inr data \<and> length data \<noteq> length input \<longrightarrow>
            calcEmbeddings endpoint input = Inl EmbeddingLengthMismatch)
       \<and> (endpoint input = Inr data \<and> length data = length input \<longrightarrow>
            calcEmbeddings endpoint input = Inr data)
       \<and> (calcEmbeddings endpoint input = Inr out \<longrightarrow>
            length out = length input \<and> endpoint input = Inr out)"
  using assms by (auto simp: calcEmbeddings_def split: sum.splits if_splits)

theorem calcEmbeddings_one_vector_per_text_witness:
  "calcEmbeddings shortAnswer [''a'', ''b''] = Inl EmbeddingLengthMismatch
   \<and> calcEmbeddings unitQuery [''a'', ''b'']
       = Inr [\<lparr>Vector = [1, 0], Embedding.Index = 0\<rparr>, \<lparr>Vector = [1, 0], Embedding.Index = 0\<rparr>]
   \<and> length [\<lparr>Vector = [1, 0], Embedding.Index = 0\<rparr>, \<lparr>Vector = [1, 0], Embedding.Index = 0\<rparr>]
       = length [''a'', ''b'']"
proof -
  have ne: "[''a'', ''b''] \<noteq> ([] :: string list)" by simp
  have short: "shortAnswer [''a'', ''b''] = Inr [] \<and> length ([] :: Embedding list) \<noteq> length [''a'', ''b'']"
    by (simp add: shortAnswer_def)
  have unit: "unitQuery [''a'', ''b'']
       = Inr [\<lparr>Vector = [1, 0], Embedding.Index = 0\<rparr>, \<lparr>Vector = [1, 0], Embedding.Index = 0\<rparr>]
     \<and> length [\<lparr>Vector = [1, 0], Embedding.Index = 0\<rparr>, \<lparr>Vector = [1, 0], Embedding.Index = 0\<rparr>]
       = length [''a'', ''b'']"
    by (simp add: unitQuery_def)
  have a: "calcEmbeddings shortAnswer [''a'', ''b''] = Inl EmbeddingLengthMismatch"
    using calcEmbeddings_one_vector_per_text [OF ne, of shortAnswer "[]"] short by blast
  have b: "calcEmbeddings unitQuery [''a'', ''b'']
       = Inr [\<lparr>Vector = [1, 0], Embedding.Index = 0\<rparr>, \<lparr>Vector = [1, 0], Embedding.Index = 0\<rparr>]"
    using calcEmbeddings_one_vector_per_text [OF ne, of unitQuery
        "[\<lparr>Vector = [1, 0], Embedding.Index = 0\<rparr>, \<lparr>Vector = [1, 0], Embedding.Index = 0\<rparr>]"] unit
    by blast
  from a b unit show ?thesis by blast
qed

section \<open>Properties of the similarity ranker\<close>

subsection \<open>The sort\<close>

lemma mset_moveLeft: "mset (moveLeft cmp x ys) = add_mset x (mset ys)"
  by (induction ys) auto


lemma mset_foldl_moveLeft:
  "mset (foldl (\<lambda>prefix x. moveLeft cmp x prefix) acc xs) = mset acc + mset xs"
  by (induction xs arbitrary: acc) (auto simp: mset_moveLeft)

lemma mset_SortFunc: "mset (SortFunc xs cmp) = mset xs"
  by (simp add: SortFunc_def mset_foldl_moveLeft)




subsection \<open>Degenerate vectors\<close>

lemma scoreLoop_degenerate:
  "v \<in> set vs \<Longrightarrow> DotProduct v v = Inr d \<Longrightarrow> d \<le> 0 \<Longrightarrow>
   \<exists>err. scoreLoop emb normA i vs = Inl err"
proof (induction vs arbitrary: i)
  case Nil
  then show ?case by simp
next
  case (Cons w ws)
  show ?case
  proof (cases "v = w")
    case True
    with Cons.prems show ?thesis by simp
  next
    case False
    with Cons.prems have "v \<in> set ws" by simp
    from Cons.IH [OF this Cons.prems(2,3)]
    obtain err where "scoreLoop emb normA (Suc i) ws = Inl err" by blast
    then show ?thesis by (simp add: Let_def split: sum.splits)
  qed
qed

text \<open>
  C4.  \<open>findSimilar\<close> returns an error, and so no positions, whenever the query embedding
  that \<open>calcEmbeddings\<close> delivers has a self-dot-product that is zero or negative, and
  whenever some corpus embedding has one.
\<close>

theorem findSimilar_degenerate_vector_is_error:
  assumes "(\<exists>embs d. calcEmbeddings endpoint [query] = Inr embs
                     \<and> DotProduct (embs ! 0) (embs ! 0) = Inr d \<and> d \<le> 0)
         \<or> (\<exists>v \<in> set embeddings. \<exists>d. DotProduct v v = Inr d \<and> d \<le> 0)"
  shows "\<exists>err. findSimilar endpoint query embeddings topN = Inl (Err err)"
proof (cases "calcEmbeddings endpoint [query]")
  case (Inl e)
  then show ?thesis by (simp add: findSimilar_def)
next
  case (Inr embs)
  then have len: "length embs = 1"
    by (auto simp: calcEmbeddings_def split: sum.splits if_splits)
  then have ix: "index embs 0 = Inr (embs ! 0)" by (simp add: index_def)
  obtain dA where dA: "DotProduct (embs ! 0) (embs ! 0) = Inr dA" by (simp add: DotProduct_def)
  show ?thesis
  proof (cases "dA \<le> 0")
    case True
    then show ?thesis using Inr ix dA by (simp add: findSimilar_def)
  next
    case False
    with assms Inr dA obtain v d where "v \<in> set embeddings" "DotProduct v v = Inr d" "d \<le> 0"
      by auto
    from scoreLoop_degenerate [OF this] obtain err where
      "scoreLoop (embs ! 0) (sqrt dA) 0 embeddings = Inl err" by blast
    then show ?thesis using Inr ix dA False by (simp add: findSimilar_def)
  qed
qed

theorem findSimilar_degenerate_vector_is_error_witness:
  "(\<exists>err. findSimilar zeroQuery ''q'' [\<lparr>Vector = [0, 1], Embedding.Index = 0\<rparr>] 1 = Inl (Err err))
   \<and> (\<exists>err. findSimilar unitQuery ''q''
              [\<lparr>Vector = [0, 1], Embedding.Index = 0\<rparr>, \<lparr>Vector = [0, 0], Embedding.Index = 1\<rparr>] 2
            = Inl (Err err))"
proof -
  have q: "(\<exists>embs d. calcEmbeddings zeroQuery [''q''] = Inr embs
                     \<and> DotProduct (embs ! 0) (embs ! 0) = Inr d \<and> d \<le> 0)
           \<or> (\<exists>v \<in> set [\<lparr>Vector = [0, 1], Embedding.Index = 0\<rparr>].
                 \<exists>d. DotProduct v v = Inr d \<and> d \<le> 0)"
    by (simp add: calcEmbeddings_def zeroQuery_def DotProduct_def)
  have z: "(\<exists>embs d. calcEmbeddings unitQuery [''q''] = Inr embs
                     \<and> DotProduct (embs ! 0) (embs ! 0) = Inr d \<and> d \<le> 0)
         \<or> (\<exists>v \<in> set [\<lparr>Vector = [0, 1], Embedding.Index = 0\<rparr>, \<lparr>Vector = [0, 0], Embedding.Index = 1\<rparr>].
               \<exists>d. DotProduct v v = Inr d \<and> d \<le> 0)"
    by (simp add: DotProduct_def)
  from findSimilar_degenerate_vector_is_error [OF q] findSimilar_degenerate_vector_is_error [OF z]
  show ?thesis by (rule conjI)
qed

lemma findSimilar_degenerate_values:
  "findSimilar zeroQuery ''q'' [\<lparr>Vector = [0, 1], Embedding.Index = 0\<rparr>] 1 = Inl (Err EmbeddingIsZero)
   \<and> findSimilar unitQuery ''q''
        [\<lparr>Vector = [0, 1], Embedding.Index = 0\<rparr>, \<lparr>Vector = [0, 0], Embedding.Index = 1\<rparr>] 2
      = Inl (Err (MetricEmbeddingIsZero 1))"
  by (simp add: findSimilar_def calcEmbeddings_def unitQuery_def zeroQuery_def index_def
      DotProduct_def Let_def)

subsection \<open>The top positions\<close>





text \<open>On this input the two positions returned are 1 and then 0.\<close>

lemma findSimilar_threeVectors: "findSimilar unitQuery ''q'' threeVectors 2 = Inr [1, 0]"
  by (simp add: findSimilar_def calcEmbeddings_def unitQuery_def threeVectors_def index_def
      DotProduct_def Let_def SortFunc_def cmpScore_def)


section \<open>Properties of the manifest loader\<close>

lemma summaryLoop_append:
  "summaryLoop rd t st (xs @ ys) =
     (case summaryLoop rd t st xs of Inl e \<Rightarrow> Inl e | Inr st' \<Rightarrow> summaryLoop rd t st' ys)"
  by (induction xs arbitrary: st) (auto simp: Let_def split: sum.splits option.splits)

lemma titleLoop_append: "titleLoop t (xs @ ys) = titleLoop (titleLoop t xs) ys"
  by (induction xs arbitrary: t) (auto simp: Let_def split: sum.splits)

lemma summaryLoop_no_separator:
  "CHR '':'' \<notin> set line \<Longrightarrow> summaryLoop rd t st (line # lines) = summaryLoop rd t st lines"
  by (simp add: SplitN2_def)

lemma summaryLoop_bad_id_first:
  "CHR '':'' \<in> set line \<Longrightarrow> Atoi (takeWhile (\<lambda>c. c \<noteq> CHR '':'') line) = Inl err \<Longrightarrow>
   summaryLoop rd t st (line # lines) = Inl err"
  by (simp add: SplitN2_def)

lemma titleLoop_bad_id_first:
  "CHR '':'' \<in> set line \<Longrightarrow> Atoi (takeWhile (\<lambda>c. c \<noteq> CHR '':'') line) = Inl err \<Longrightarrow>
   titleLoop t (line # lines) = titleLoop t lines"
  by (simp add: SplitN2_def)

lemma summaryLoop_bad_id:
  assumes "line \<in> set lines" "CHR '':'' \<in> set line"
    "Atoi (takeWhile (\<lambda>c. c \<noteq> CHR '':'') line) = Inl err"
  shows "\<exists>e. summaryLoop rd t st lines = Inl e"
proof -
  from assms(1) obtain pre post where "lines = pre @ line # post"
    by (auto simp: in_set_conv_decomp)
  then show ?thesis
    by (cases "summaryLoop rd t st pre")
       (simp_all add: summaryLoop_append summaryLoop_bad_id_first [OF assms(2,3)]
          del: summaryLoop.simps)
qed

text \<open>
  C6, as amended.  A line of the summary manifest without the separator \<open>:\<close> is skipped
  silently: the load is that of the manifest without the line.  A line with a
  separator whose id does not parse as an integer is not skipped: when the title manifest
  and the lines before it have loaded, \<open>Init\<close> returns the parse error.
\<close>

theorem summary_manifest_malformed_lines:
  assumes "SummaryLines fs = Inr (pre @ line # post)"
  shows "(CHR '':'' \<notin> set line \<longrightarrow>
            Init endpoint fs = Init endpoint (fs\<lparr>SummaryLines := Inr (pre @ post)\<rparr>))
       \<and> (CHR '':'' \<in> set line \<and> Atoi (takeWhile (\<lambda>c. c \<noteq> CHR '':'') line) = Inl err
            \<and> loadTitles fs = Inr titles
            \<and> (\<exists>st. summaryLoop (ReadMarkdown fs) titles
                       \<lparr>curIdx = 0, curDocIds = Map.empty, curDocuments = [], curSummaries = []\<rparr>
                       pre = Inr st) \<longrightarrow>
            Init endpoint fs = Inl err)"
proof (intro conjI impI)
  assume "CHR '':'' \<notin> set line"
  then have "\<And>t st. summaryLoop (ReadMarkdown fs) t st (pre @ line # post)
               = summaryLoop (ReadMarkdown fs) t st (pre @ post)"
    by (simp add: summaryLoop_append summaryLoop_no_separator del: summaryLoop.simps
          split: sum.splits)
  then show "Init endpoint fs = Init endpoint (fs\<lparr>SummaryLines := Inr (pre @ post)\<rparr>)"
    using assms by (simp add: Init_def loadTitles_def cong: sum.case_cong)
next
  assume a: "CHR '':'' \<in> set line \<and> Atoi (takeWhile (\<lambda>c. c \<noteq> CHR '':'') line) = Inl err
            \<and> loadTitles fs = Inr titles
            \<and> (\<exists>st. summaryLoop (ReadMarkdown fs) titles
                       \<lparr>curIdx = 0, curDocIds = Map.empty, curDocuments = [], curSummaries = []\<rparr>
                       pre = Inr st)"
  then obtain st where "summaryLoop (ReadMarkdown fs) titles
                       \<lparr>curIdx = 0, curDocIds = Map.empty, curDocuments = [], curSummaries = []\<rparr>
                       pre = Inr st" by blast
  then have "summaryLoop (ReadMarkdown fs) titles
                       \<lparr>curIdx = 0, curDocIds = Map.empty, curDocuments = [], curSummaries = []\<rparr>
                       (pre @ line # post) = Inl err"
    using a by (simp add: summaryLoop_append summaryLoop_bad_id_first del: summaryLoop.simps)
  then show "Init endpoint fs = Inl err"
    using assms a by (simp add: Init_def)
qed

lemma Atoi_x: "Atoi ''x'' = Inl (NumError ''x'')"
  by (simp add: Atoi_def isDigit_def Let_def)

lemma Atoi_7: "Atoi ''7'' = Inr 7"
  by (simp add: Atoi_def isDigit_def digitVal_def Let_def)

lemma Atoi_9: "Atoi ''9'' = Inr 9"
  by (simp add: Atoi_def isDigit_def digitVal_def Let_def)

theorem summary_manifest_malformed_lines_witness:
  "Init unitQuery (diskWith [] [''7:invoice summary'', ''no separator'', ''9:minutes''])
     = Init unitQuery
         ((diskWith [] [''7:invoice summary'', ''no separator'', ''9:minutes''])
            \<lparr>SummaryLines := Inr ([''7:invoice summary''] @ [''9:minutes''])\<rparr>)
   \<and> Init unitQuery (diskWith [] [''7:invoice summary'', ''x:broken'', ''9:minutes''])
     = Inl (NumError ''x'')"
proof -
  have l1: "SummaryLines (diskWith [] [''7:invoice summary'', ''no separator'', ''9:minutes''])
              = Inr ([''7:invoice summary''] @ ''no separator'' # [''9:minutes''])"
    by (simp add: diskWith_def)
  have n1: "CHR '':'' \<notin> set ''no separator''" by simp
  have l2: "SummaryLines (diskWith [] [''7:invoice summary'', ''x:broken'', ''9:minutes''])
              = Inr ([''7:invoice summary''] @ ''x:broken'' # [''9:minutes''])"
    by (simp add: diskWith_def)
  have n2: "CHR '':'' \<in> set ''x:broken''
            \<and> Atoi (takeWhile (\<lambda>c. c \<noteq> CHR '':'') ''x:broken'') = Inl (NumError ''x'')
            \<and> loadTitles (diskWith [] [''7:invoice summary'', ''x:broken'', ''9:minutes''])
                 = Inr (titleLoop Map.empty (Split [] newline))
            \<and> (\<exists>st. summaryLoop
                       (ReadMarkdown (diskWith [] [''7:invoice summary'', ''x:broken'', ''9:minutes'']))
                       (titleLoop Map.empty (Split [] newline))
                       \<lparr>curIdx = 0, curDocIds = Map.empty, curDocuments = [], curSummaries = []\<rparr>
                       [''7:invoice summary''] = Inr st)"
    by (simp add: diskWith_def loadTitles_def SplitN2_def Atoi_x Atoi_7 Let_def)
  from summary_manifest_malformed_lines [OF l1, where endpoint = unitQuery] n1
  have a: "Init unitQuery (diskWith [] [''7:invoice summary'', ''no separator'', ''9:minutes''])
     = Init unitQuery
         ((diskWith [] [''7:invoice summary'', ''no separator'', ''9:minutes''])
            \<lparr>SummaryLines := Inr ([''7:invoice summary''] @ [''9:minutes''])\<rparr>)"
    by blast
  from summary_manifest_malformed_lines [OF l2, where endpoint = unitQuery and err = "NumError ''x''"] n2
  have b: "Init unitQuery (diskWith [] [''7:invoice summary'', ''x:broken'', ''9:minutes''])
     = Inl (NumError ''x'')"
    by blast
  from a b show ?thesis by blast
qed

text \<open>
  C6 as stated fails: a line of the summary manifest whose id does not parse is not
  skipped.  With it the load is the parse error; without it the two documents load.
\<close>

theorem summary_manifest_malformed_lines_counterexample:
  "Init unitQuery (diskWith [] [''7:invoice summary'', ''x:broken'', ''9:minutes''])
     = Inl (NumError ''x'')
   \<and> Init unitQuery (diskWith [] [''7:invoice summary'', ''9:minutes''])
     = Inr \<lparr>allDocIds = [7 \<mapsto> 0, 9 \<mapsto> 1],
            allDocuments =
              [\<lparr>DocId = 7, Title = [], Content = ''seven'', Summary = ''invoice summary''\<rparr>,
               \<lparr>DocId = 9, Title = [], Content = ''nine'', Summary = ''minutes''\<rparr>],
            allEmbeddings =
              [\<lparr>Vector = [1, 0], Embedding.Index = 0\<rparr>, \<lparr>Vector = [1, 0], Embedding.Index = 0\<rparr>]\<rparr>"
  by (simp add: Init_def diskWith_def loadTitles_def SplitN2_def Atoi_x Atoi_7 Atoi_9 Let_def
      calcEmbeddings_def unitQuery_def)

text \<open>
  C7.  Let a manifest line have a separator and an id that does not parse as an integer.
  In the title manifest the line is skipped: the titles loaded are those of the manifest
  without the line, so the lines after it are still read.  In the summary manifest the
  line makes \<open>Init\<close> return an error, whatever the other lines are.
\<close>

theorem manifest_id_parse_asymmetry:
  assumes "CHR '':'' \<in> set line"
    and "Atoi (takeWhile (\<lambda>c. c \<noteq> CHR '':'') line) = Inl err"
  shows "(ReadFilesTxt fs = Inr files \<and> Split files newline = pre @ line # post \<longrightarrow>
            loadTitles fs = Inr (titleLoop Map.empty (pre @ post)))
       \<and> (SummaryLines fs' = Inr lines \<and> line \<in> set lines \<longrightarrow>
            (\<exists>e. Init endpoint fs' = Inl e))"
proof (intro conjI impI)
  assume "ReadFilesTxt fs = Inr files \<and> Split files newline = pre @ line # post"
  then show "loadTitles fs = Inr (titleLoop Map.empty (pre @ post))"
    using assms
    by (simp add: loadTitles_def titleLoop_append titleLoop_bad_id_first del: titleLoop.simps)
next
  assume a: "SummaryLines fs' = Inr lines \<and> line \<in> set lines"
  show "\<exists>e. Init endpoint fs' = Inl e"
  proof (cases "loadTitles fs'")
    case (Inl e)
    then show ?thesis by (simp add: Init_def)
  next
    case (Inr titles)
    from a assms obtain e where
      "summaryLoop (ReadMarkdown fs') titles
         \<lparr>curIdx = 0, curDocIds = Map.empty, curDocuments = [], curSummaries = []\<rparr> lines = Inl e"
      using summaryLoop_bad_id by blast
    then show ?thesis using a Inr by (simp add: Init_def)
  qed
qed

theorem manifest_id_parse_asymmetry_witness:
  "loadTitles (diskWith (''x:a.pdf'' @ [newline] @ ''7:b.docx'') []) = Inr (titleLoop Map.empty ([] @ [''7:b.docx'']))
   \<and> titleLoop Map.empty ([] @ [''7:b.docx'']) 7 = Some ''b''
   \<and> (\<exists>e. Init unitQuery (diskWith [] [''7:invoice summary'', ''x:a.pdf'']) = Inl e)"
proof -
  have c: "CHR '':'' \<in> set ''x:a.pdf''" by simp
  have p: "Atoi (takeWhile (\<lambda>c. c \<noteq> CHR '':'') ''x:a.pdf'') = Inl (NumError ''x'')"
    by (simp add: Atoi_x)
  have t: "ReadFilesTxt (diskWith (''x:a.pdf'' @ [newline] @ ''7:b.docx'') [])
             = Inr (''x:a.pdf'' @ [newline] @ ''7:b.docx'')
           \<and> Split (''x:a.pdf'' @ [newline] @ ''7:b.docx'') newline = [] @ ''x:a.pdf'' # [''7:b.docx'']"
    by (simp add: diskWith_def newline_def)
  have s: "SummaryLines (diskWith [] [''7:invoice summary'', ''x:a.pdf''])
             = Inr [''7:invoice summary'', ''x:a.pdf'']
           \<and> ''x:a.pdf'' \<in> set [''7:invoice summary'', ''x:a.pdf'']"
    by (simp add: diskWith_def)
  have v: "titleLoop Map.empty ([] @ [''7:b.docx'']) 7 = Some ''b''"
    by (simp add: SplitN2_def Atoi_7 trimSuffixes_def TrimSuffix_def)
  from manifest_id_parse_asymmetry [OF c p,
      where fs = "diskWith (''x:a.pdf'' @ [newline] @ ''7:b.docx'') []"
        and files = "''x:a.pdf'' @ [newline] @ ''7:b.docx''" and pre = "[]" and post = "[''7:b.docx'']"
        and fs' = "diskWith [] [''7:invoice summary'', ''x:a.pdf'']"
        and lines = "[''7:invoice summary'', ''x:a.pdf'']" and endpoint = unitQuery] t s v
  show ?thesis by blast
qed

section \<open>Properties of retrieval\<close>

lemma scoreLoop_indices:
  "scoreLoop emb normA i vs = Inr scores \<Longrightarrow> map Score.Index scores = map Embedding.Index vs"
  by (induction vs arbitrary: i scores) (auto simp: Let_def split: sum.splits if_splits)

lemma findSimilar_indices:
  assumes "findSimilar endpoint query embeddings topN = Inr res"
  shows "set res \<subseteq> Embedding.Index ` set embeddings"
proof -
  from assms obtain emb normA scores k where
    sc: "scoreLoop emb normA 0 embeddings = Inr scores"
    and res: "res = map Score.Index (take k (SortFunc scores cmpScore))"
    by (auto simp: findSimilar_def Let_def split: sum.splits if_splits)
  have "set res \<subseteq> set (map Score.Index (SortFunc scores cmpScore))"
    unfolding res take_map [symmetric] by (rule set_take_subset)
  also have "\<dots> = Score.Index ` set scores"
    using mset_SortFunc [of scores cmpScore] by (metis mset_eq_setD set_map)
  also have "\<dots> = set (map Embedding.Index embeddings)"
    using scoreLoop_indices [OF sc] by (metis set_map)
  finally show ?thesis by simp
qed

lemma candidateLoop_ok:
  "\<forall>i \<in> set res. 0 \<le> i \<and> i < int (length docs) \<Longrightarrow>
   candidateLoop docs res
     = Inr (map (\<lambda>i. DocId (docs ! nat i)) res, map (\<lambda>i. Summary (docs ! nat i)) res)"
  by (induction res) (auto simp: index_def)

lemma candidateLoop_panic:
  "\<exists>i \<in> set res. i < 0 \<or> int (length docs) \<le> i \<Longrightarrow>
   candidateLoop docs res = Inl (Panic IndexOutOfRange)"
proof (induction res)
  case Nil
  then show ?case by simp
next
  case (Cons i res)
  show ?case
  proof (cases "0 \<le> i \<and> i < int (length docs)")
    case True
    with Cons.prems have "\<exists>i \<in> set res. i < 0 \<or> int (length docs) \<le> i" by auto
    with Cons.IH True show ?thesis by (simp add: index_def)
  next
    case False
    then show ?thesis by (auto simp: index_def)
  qed
qed

lemma rerankLoop_ok:
  "\<forall>v \<in> set results. 0 \<le> RerankResult.Index v \<and> RerankResult.Index v < int (length docIds) \<Longrightarrow>
   rerankLoop docIds results = Inr (map (\<lambda>v. docIds ! nat (RerankResult.Index v)) results)"
  by (induction results) (auto simp: index_def)

lemma rerankLoop_panic:
  "\<exists>v \<in> set results. RerankResult.Index v < 0 \<or> int (length docIds) \<le> RerankResult.Index v \<Longrightarrow>
   rerankLoop docIds results = Inl (Panic IndexOutOfRange)"
proof (induction results)
  case Nil
  then show ?case by simp
next
  case (Cons v results)
  show ?case
  proof (cases "0 \<le> RerankResult.Index v \<and> RerankResult.Index v < int (length docIds)")
    case True
    with Cons.prems have
      "\<exists>v \<in> set results. RerankResult.Index v < 0 \<or> int (length docIds) \<le> RerankResult.Index v"
      by auto
    with Cons.IH True show ?thesis by (simp add: index_def)
  next
    case False
    then show ?thesis by (auto simp: index_def)
  qed
qed

text \<open>
  C9.  Let \<open>findSimilar\<close> return the positions \<open>resEmb\<close>.  They are \<open>Index\<close> fields of
  corpus embeddings, as the embedding endpoint reported them.  \<open>RunRAG\<close> panics with an
  index out of range when one of them is not a position of \<open>allDocuments\<close>, and also when
  they all are and a rerank result carries an index that is not a position of the
  candidate list.  When every index is in range, the documents formatted are those that
  the remote indices select: \<open>allDocuments[resEmb[v.Index]]\<close> for each rerank result.
\<close>

theorem RunRAG_trusts_remote_indices:
  assumes "findSimilar endpoint question (allEmbeddings corpus) (TopEmb cfg) = Inr resEmb"
  shows "set resEmb \<subseteq> Embedding.Index ` set (allEmbeddings corpus)
       \<and> ((\<exists>i \<in> set resEmb. i < 0 \<or> int (length (allDocuments corpus)) \<le> i) \<longrightarrow>
            RunRAG cfg endpoint post corpus question = Inl (Panic IndexOutOfRange))
       \<and> ((\<forall>i \<in> set resEmb. 0 \<le> i \<and> i < int (length (allDocuments corpus)))
            \<and> rerank cfg post question (map (\<lambda>i. Summary (allDocuments corpus ! nat i)) resEmb)
                 (TopRerank cfg) = Inr results
            \<and> (\<exists>v \<in> set results. RerankResult.Index v < 0
                                   \<or> int (length resEmb) \<le> RerankResult.Index v) \<longrightarrow>
            RunRAG cfg endpoint post corpus question = Inl (Panic IndexOutOfRange))
       \<and> ((\<forall>i \<in> set resEmb. 0 \<le> i \<and> i < int (length (allDocuments corpus)))
            \<and> rerank cfg post question (map (\<lambda>i. Summary (allDocuments corpus ! nat i)) resEmb)
                 (TopRerank cfg) = Inr results
            \<and> (\<forall>v \<in> set results. 0 \<le> RerankResult.Index v
                                   \<and> RerankResult.Index v < int (length resEmb)) \<longrightarrow>
            RunRAG cfg endpoint post corpus question
              = formatLoop corpus (textFound @ itoa (length results) @ textDocuments) 0
                  (map (\<lambda>v. DocId (allDocuments corpus ! nat (resEmb ! nat (RerankResult.Index v))))
                     results))"
proof (intro conjI impI)
  show "set resEmb \<subseteq> Embedding.Index ` set (allEmbeddings corpus)"
    using assms by (rule findSimilar_indices)
next
  assume "\<exists>i \<in> set resEmb. i < 0 \<or> int (length (allDocuments corpus)) \<le> i"
  then show "RunRAG cfg endpoint post corpus question = Inl (Panic IndexOutOfRange)"
    using assms by (simp add: RunRAG_def candidateLoop_panic)
next
  assume a: "(\<forall>i \<in> set resEmb. 0 \<le> i \<and> i < int (length (allDocuments corpus)))
            \<and> rerank cfg post question (map (\<lambda>i. Summary (allDocuments corpus ! nat i)) resEmb)
                 (TopRerank cfg) = Inr results
            \<and> (\<exists>v \<in> set results. RerankResult.Index v < 0
                                   \<or> int (length resEmb) \<le> RerankResult.Index v)"
  then have "rerankLoop (map (\<lambda>i. DocId (allDocuments corpus ! nat i)) resEmb) results
               = Inl (Panic IndexOutOfRange)"
    by (simp add: rerankLoop_panic)
  then show "RunRAG cfg endpoint post corpus question = Inl (Panic IndexOutOfRange)"
    using assms a by (simp add: RunRAG_def candidateLoop_ok)
next
  assume a: "(\<forall>i \<in> set resEmb. 0 \<le> i \<and> i < int (length (allDocuments corpus)))
            \<and> rerank cfg post question (map (\<lambda>i. Summary (allDocuments corpus ! nat i)) resEmb)
                 (TopRerank cfg) = Inr results
            \<and> (\<forall>v \<in> set results. 0 \<le> RerankResult.Index v
                                   \<and> RerankResult.Index v < int (length resEmb))"
  then have "rerankLoop (map (\<lambda>i. DocId (allDocuments corpus ! nat i)) resEmb) results
               = Inr (map (\<lambda>v. DocId (allDocuments corpus ! nat (resEmb ! nat (RerankResult.Index v))))
                     results)"
    by (auto simp: rerankLoop_ok)
  then show "RunRAG cfg endpoint post corpus question
              = formatLoop corpus (textFound @ itoa (length results) @ textDocuments) 0
                  (map (\<lambda>v. DocId (allDocuments corpus ! nat (resEmb ! nat (RerankResult.Index v))))
                     results)"
    using assms a by (simp add: RunRAG_def candidateLoop_ok)
qed


lemma findSimilar_twoDocuments:
  "findSimilar unitQuery q (allEmbeddings twoDocuments) (TopEmb defaultConfig) = Inr [0, 1]"
  by (simp add: findSimilar_def calcEmbeddings_def unitQuery_def twoDocuments_def defaultConfig_def
      index_def DotProduct_def Let_def SortFunc_def cmpScore_def)

lemma findSimilar_foreign_index:
  "findSimilar unitQuery q
     (allEmbeddings (twoDocuments\<lparr>allEmbeddings := [\<lparr>Vector = [1, 0], Embedding.Index = 5\<rparr>]\<rparr>))
     (TopEmb defaultConfig) = Inr [5]"
  by (simp add: findSimilar_def calcEmbeddings_def unitQuery_def twoDocuments_def defaultConfig_def
      index_def DotProduct_def Let_def SortFunc_def cmpScore_def)

theorem RunRAG_trusts_remote_indices_witness:
  "RunRAG defaultConfig unitQuery (rerankAnswer [0])
      (twoDocuments\<lparr>allEmbeddings := [\<lparr>Vector = [1, 0], Embedding.Index = 5\<rparr>]\<rparr>) ''q''
     = Inl (Panic IndexOutOfRange)
   \<and> RunRAG defaultConfig unitQuery (rerankAnswer [2]) twoDocuments ''q''
     = Inl (Panic IndexOutOfRange)
   \<and> RunRAG defaultConfig unitQuery (rerankAnswer [1]) twoDocuments ''q''
     = formatLoop twoDocuments (textFound @ itoa 1 @ textDocuments) 0 [9]"
proof -
  have a: "\<exists>i \<in> set [5]. i < 0
             \<or> int (length (allDocuments
                   (twoDocuments\<lparr>allEmbeddings := [\<lparr>Vector = [1, 0], Embedding.Index = 5\<rparr>]\<rparr>))) \<le> i"
    by (simp add: twoDocuments_def)
  have r: "\<forall>i \<in> set [0, 1]. 0 \<le> i \<and> i < int (length (allDocuments twoDocuments))"
    by (simp add: twoDocuments_def)
  have b: "rerank defaultConfig (rerankAnswer [2]) ''q''
             (map (\<lambda>i. Summary (allDocuments twoDocuments ! nat i)) [0, 1]) (TopRerank defaultConfig)
           = Inr [\<lparr>RerankResult.Index = 2, RelevanceScore = 1\<rparr>]
         \<and> (\<exists>v \<in> set [\<lparr>RerankResult.Index = 2, RelevanceScore = 1\<rparr>].
               RerankResult.Index v < 0 \<or> int (length [0, 1 :: int]) \<le> RerankResult.Index v)"
    by (simp add: rerank_def rerankAnswer_def)
  have c: "rerank defaultConfig (rerankAnswer [1]) ''q''
             (map (\<lambda>i. Summary (allDocuments twoDocuments ! nat i)) [0, 1]) (TopRerank defaultConfig)
           = Inr [\<lparr>RerankResult.Index = 1, RelevanceScore = 1\<rparr>]
         \<and> (\<forall>v \<in> set [\<lparr>RerankResult.Index = 1, RelevanceScore = 1\<rparr>].
               0 \<le> RerankResult.Index v \<and> RerankResult.Index v < int (length [0, 1 :: int]))"
    by (simp add: rerank_def rerankAnswer_def)
  have d: "map (\<lambda>v. DocId (allDocuments twoDocuments ! nat ([0, 1] ! nat (RerankResult.Index v))))
             [\<lparr>RerankResult.Index = 1, RelevanceScore = 1\<rparr>] = [9]"
    by (simp add: twoDocuments_def)
  have "RunRAG defaultConfig unitQuery (rerankAnswer [0])
      (twoDocuments\<lparr>allEmbeddings := [\<lparr>Vector = [1, 0], Embedding.Index = 5\<rparr>]\<rparr>) ''q''
     = Inl (Panic IndexOutOfRange)"
    using RunRAG_trusts_remote_indices [OF findSimilar_foreign_index, where post = "rerankAnswer [0]"] a
    by blast
  moreover have "RunRAG defaultConfig unitQuery (rerankAnswer [2]) twoDocuments ''q''
     = Inl (Panic IndexOutOfRange)"
    using RunRAG_trusts_remote_indices [OF findSimilar_twoDocuments, where post = "rerankAnswer [2]"
        and results = "[\<lparr>RerankResult.Index = 2, RelevanceScore = 1\<rparr>]"] r b
    by blast
  moreover have "RunRAG defaultConfig unitQuery (rerankAnswer [1]) twoDocuments ''q''
     = formatLoop twoDocuments (textFound @ itoa 1 @ textDocuments) 0 [9]"
    using RunRAG_trusts_remote_indices [OF findSimilar_twoDocuments, where post = "rerankAnswer [1]"
        and results = "[\<lparr>RerankResult.Index = 1, RelevanceScore = 1\<rparr>]" and question = "''q''"] r c d
    by simp
  ultimately show ?thesis by blast
qed

text \<open>The context \<open>RunRAG\<close> returns for the two documents, reranked as 9 and then 7.\<close>

lemma RunRAG_twoDocuments:
  "RunRAG defaultConfig unitQuery (rerankAnswer [1, 0]) twoDocuments q =
     Inr (textFound @ ''2'' @ textDocuments
          @ textOrdinal @ ''1'' @ textDocument @ textColon @ ''nine'' @ [newline, newline]
          @ textOrdinal @ ''2'' @ textDocument @ textTitleOpen @ ''invoice'' @ textTitleClose
          @ textColon @ ''seven'' @ [newline, newline])"
  unfolding RunRAG_def findSimilar_twoDocuments
  by (simp add: twoDocuments_def defaultConfig_def rerank_def rerankAnswer_def index_def itoa.simps)

section \<open>Properties of the chat handler\<close>


text \<open>The run of the handler when summarization and retrieval succeed.\<close>

lemma chatApiHandler_answering:
  assumes m: "Messages request = first # rest"
    and r1: "request1 = request
               \<lparr>ChatCompletionRequest.Model := ModelWithoutThinking cfg,
                Stream := False,
                Messages := [\<lparr>Role = ChatMessageRoleSystem, Content = textSummarize\<rparr>,
                             \<lparr>Role = ChatMessageRoleUser,
                              Content = historyLoop [] 0 (Messages request)\<rparr>]\<rparr>"
    and s: "CreateChatCompletion remote request1 = Inr response"
    and c: "Choices response = choice # others"
    and g: "RunRAG cfg (CreateEmbeddings remote) (Do remote) corpus (Content (Message choice))
              = Inr result"
    and r2: "request2 = request
               \<lparr>Stream := True,
                Messages := [\<lparr>Role = ChatMessageRoleSystem,
                              Content = (if Role first = ChatMessageRoleSystem then Content first else [])\<rparr>,
                             \<lparr>Role = ChatMessageRoleUser,
                              Content = textAnswer @ Content (Message choice) @ [newline, newline]
                                          @ result\<rparr>]\<rparr>"
  shows "chatApiHandler cfg remote corpus (Inr request) =
           ([CreateChatCompletionCall request1, RunRAGCall (Content (Message choice)),
             CreateChatCompletionStreamCall request2],
            (case CreateChatCompletionStream remote request2 of
               Inl err \<Rightarrow> Inr [JSON 500 err]
             | Inr stream \<Rightarrow> Inr (streamResponse stream)))"
proof -
  have i: "index (Messages request) 0 = Inr first" using m by (simp add: index_def)
  have j: "index (Choices response) 0 = Inr choice" using c by (simp add: index_def)
  have e: "request1\<lparr>ChatCompletionRequest.Model := ChatCompletionRequest.Model request,
             Stream := True,
             Messages := [\<lparr>Role = ChatMessageRoleSystem,
                              Content = (if Role first = ChatMessageRoleSystem then Content first else [])\<rparr>,
                             \<lparr>Role = ChatMessageRoleUser,
                              Content = textAnswer @ Content (Message choice) @ [newline, newline]
                                          @ result\<rparr>]\<rparr> = request2"
    unfolding r1 r2 by simp
  show ?thesis
    unfolding chatApiHandler_def
    apply (simp only: i Let_def sum.case r1 [symmetric] s j g e)
    apply (cases "CreateChatCompletionStream remote request2")
     apply simp_all
    done
qed


lemma historyLoop_terse:
  "historyLoop [] 0 [\<lparr>Role = ''system'', Content = ''Be terse''\<rparr>, \<lparr>Role = ''user'', Content = ''What is X?''\<rparr>]
     = ''1. [role=user] What is X?'' @ [newline, newline]"
  by (simp add: ChatMessageRoleSystem_def itoa.simps)

text \<open>
  C2.  Let the request carry the messages \<open>[{system, "Be terse"}, {user, "What is X?"}]\<close>,
  let the summarization call return at least one choice, and let retrieval succeed on that
  choice's text.  Then the handler makes exactly three outbound calls, in this order: the
  summarization call, whose transcript is the single line of the user message (numbered 1)
  and does not contain the system message; the retrieval call on the synthesized question;
  and the streamed call, whose system message is \<open>"Be terse"\<close> and whose user message is
  the fixed instruction followed by the synthesized question and the retrieved context.
\<close>

theorem chat_end_to_end:
  assumes m: "Messages request =
                [\<lparr>Role = ''system'', Content = ''Be terse''\<rparr>, \<lparr>Role = ''user'', Content = ''What is X?''\<rparr>]"
    and r1: "request1 = request
               \<lparr>ChatCompletionRequest.Model := ModelWithoutThinking cfg,
                Stream := False,
                Messages := [\<lparr>Role = ''system'', Content = textSummarize\<rparr>,
                             \<lparr>Role = ''user'',
                              Content = ''1. [role=user] What is X?'' @ [newline, newline]\<rparr>]\<rparr>"
    and s: "CreateChatCompletion remote request1 = Inr response"
    and c: "Choices response = choice # others"
    and g: "RunRAG cfg (CreateEmbeddings remote) (Do remote) corpus (Content (Message choice))
              = Inr result"
  shows "fst (chatApiHandler cfg remote corpus (Inr request)) =
           [CreateChatCompletionCall request1,
            RunRAGCall (Content (Message choice)),
            CreateChatCompletionStreamCall
              (request
                 \<lparr>Stream := True,
                  Messages := [\<lparr>Role = ''system'', Content = ''Be terse''\<rparr>,
                               \<lparr>Role = ''user'',
                                Content = textAnswer @ Content (Message choice) @ [newline, newline]
                                            @ result\<rparr>]\<rparr>)]"
proof -
  have r1': "request1 = request
               \<lparr>ChatCompletionRequest.Model := ModelWithoutThinking cfg,
                Stream := False,
                Messages := [\<lparr>Role = ChatMessageRoleSystem, Content = textSummarize\<rparr>,
                             \<lparr>Role = ChatMessageRoleUser,
                              Content = historyLoop [] 0 (Messages request)\<rparr>]\<rparr>"
    unfolding r1 m historyLoop_terse
    by (simp only: ChatMessageRoleSystem_def ChatMessageRoleUser_def)
  have r2: "request
                 \<lparr>Stream := True,
                  Messages := [\<lparr>Role = ''system'', Content = ''Be terse''\<rparr>,
                               \<lparr>Role = ''user'',
                                Content = textAnswer @ Content (Message choice) @ [newline, newline]
                                            @ result\<rparr>]\<rparr>
            = request
               \<lparr>Stream := True,
                Messages := [\<lparr>Role = ChatMessageRoleSystem,
                              Content = (if Role \<lparr>Role = ''system'', Content = ''Be terse''\<rparr>
                                            = ChatMessageRoleSystem
                                         then Content \<lparr>Role = ''system'', Content = ''Be terse''\<rparr>
                                         else [])\<rparr>,
                             \<lparr>Role = ChatMessageRoleUser,
                              Content = textAnswer @ Content (Message choice) @ [newline, newline]
                                          @ result\<rparr>]\<rparr>"
    by (simp add: ChatMessageRoleSystem_def ChatMessageRoleUser_def)
  show ?thesis
    by (simp only: chatApiHandler_answering [OF m r1' s c g r2] fst_conv)
qed


lemma RunRAG_canned:
  "RunRAG defaultConfig (CreateEmbeddings (cannedRemote response stream))
     (Do (cannedRemote response stream)) twoDocuments q = Inr twoDocumentsContext"
  by (simp add: cannedRemote_def RunRAG_twoDocuments twoDocumentsContext_def)

theorem chat_end_to_end_witness:
  "fst (chatApiHandler defaultConfig (cannedRemote standalone \<lparr>Frames = [], Ending = EOF\<rparr>)
          twoDocuments (Inr \<lparr>ChatCompletionRequest.Model = ''auto'', Messages = terse, Stream = False\<rparr>)) =
     [CreateChatCompletionCall
        (\<lparr>ChatCompletionRequest.Model = ''auto'', Messages = terse, Stream = False\<rparr>
           \<lparr>ChatCompletionRequest.Model := ModelWithoutThinking defaultConfig,
            Stream := False,
            Messages := [\<lparr>Role = ''system'', Content = textSummarize\<rparr>,
                         \<lparr>Role = ''user'',
                          Content = ''1. [role=user] What is X?'' @ [newline, newline]\<rparr>]\<rparr>),
      RunRAGCall (Content (Message \<lparr>Message = \<lparr>Role = ''assistant'', Content = ''What is X?''\<rparr>\<rparr>)),
      CreateChatCompletionStreamCall
        (\<lparr>ChatCompletionRequest.Model = ''auto'', Messages = terse, Stream = False\<rparr>
           \<lparr>Stream := True,
            Messages := [\<lparr>Role = ''system'', Content = ''Be terse''\<rparr>,
                         \<lparr>Role = ''user'',
                          Content = textAnswer
                            @ Content (Message \<lparr>Message = \<lparr>Role = ''assistant'', Content = ''What is X?''\<rparr>\<rparr>)
                            @ [newline, newline] @ twoDocumentsContext\<rparr>]\<rparr>)]"
proof -
  have m: "Messages \<lparr>ChatCompletionRequest.Model = ''auto'', Messages = terse, Stream = False\<rparr> =
             [\<lparr>Role = ''system'', Content = ''Be terse''\<rparr>, \<lparr>Role = ''user'', Content = ''What is X?''\<rparr>]"
    by (simp add: terse_def)
  have s: "CreateChatCompletion (cannedRemote standalone \<lparr>Frames = [], Ending = EOF\<rparr>)
             (\<lparr>ChatCompletionRequest.Model = ''auto'', Messages = terse, Stream = False\<rparr>
               \<lparr>ChatCompletionRequest.Model := ModelWithoutThinking defaultConfig,
                Stream := False,
                Messages := [\<lparr>Role = ''system'', Content = textSummarize\<rparr>,
                             \<lparr>Role = ''user'',
                              Content = ''1. [role=user] What is X?'' @ [newline, newline]\<rparr>]\<rparr>)
           = Inr standalone"
    by (simp add: cannedRemote_def)
  have c: "Choices standalone = \<lparr>Message = \<lparr>Role = ''assistant'', Content = ''What is X?''\<rparr>\<rparr> # []"
    by (simp add: standalone_def)
  show ?thesis
    by (rule chat_end_to_end [OF m refl s c RunRAG_canned])
qed

text \<open>
  C8.  On a bound request whose \<open>messages\<close> array is empty the handler panics with an index
  out of range before any outbound call and before anything is written to the caller.
\<close>

theorem chatApiHandler_no_messages_panics:
  "chatApiHandler cfg remote corpus (Inr (request\<lparr>Messages := []\<rparr>)) = ([], Inl IndexOutOfRange)"
  by (simp add: chatApiHandler_def index_def)

theorem chatApiHandler_no_messages_panics_witness:
  "chatApiHandler defaultConfig (cannedRemote standalone \<lparr>Frames = [], Ending = EOF\<rparr>) twoDocuments
     (Inr \<lparr>ChatCompletionRequest.Model = ''auto'', Messages = [], Stream = True\<rparr>)
   = ([], Inl IndexOutOfRange)"
  using chatApiHandler_no_messages_panics
    [of defaultConfig "cannedRemote standalone \<lparr>Frames = [], Ending = EOF\<rparr>" twoDocuments
        "\<lparr>ChatCompletionRequest.Model = ''auto'', Messages = terse, Stream = True\<rparr>"]
  by simp




lemma chatApiHandler_canned:
  assumes "Messages request = terse"
  shows "chatApiHandler defaultConfig (cannedRemote standalone stream) twoDocuments (Inr request) =
     ([CreateChatCompletionCall
        (request
           \<lparr>ChatCompletionRequest.Model := ''Qwen/Qwen2.5-7B-Instruct'',
            Stream := False,
            Messages := [\<lparr>Role = ''system'', Content = textSummarize\<rparr>,
                         \<lparr>Role = ''user'',
                          Content = ''1. [role=user] What is X?'' @ [newline, newline]\<rparr>]\<rparr>),
       RunRAGCall ''What is X?'',
       CreateChatCompletionStreamCall
        (request
           \<lparr>Stream := True,
            Messages := [\<lparr>Role = ''system'', Content = ''Be terse''\<rparr>,
                         \<lparr>Role = ''user'',
                          Content = textAnswer @ ''What is X?'' @ [newline, newline]
                                      @ twoDocumentsContext\<rparr>]\<rparr>)],
      Inr (streamResponse stream))"
proof -
  have m: "Messages request =
             \<lparr>Role = ''system'', Content = ''Be terse''\<rparr> # [\<lparr>Role = ''user'', Content = ''What is X?''\<rparr>]"
    using assms by (simp add: terse_def)
  have s: "CreateChatCompletion (cannedRemote standalone stream) r = Inr standalone"
    for r :: "'a ChatCompletionRequest_scheme"
    by (simp add: cannedRemote_def)
  have t: "CreateChatCompletionStream (cannedRemote standalone stream) r = Inr stream"
    for r :: "'a ChatCompletionRequest_scheme"
    by (simp add: cannedRemote_def)
  have c: "Choices standalone = \<lparr>Message = \<lparr>Role = ''assistant'', Content = ''What is X?''\<rparr>\<rparr> # []"
    by (simp add: standalone_def)
  show ?thesis
    unfolding chatApiHandler_answering [OF m refl s c RunRAG_canned refl] t
    by (simp add: m historyLoop_terse defaultConfig_def ChatMessageRoleSystem_def
        ChatMessageRoleUser_def del: historyLoop.simps)
qed




text \<open>
  C10.  Every summarization call in the handler's trace is the caller's request with
  \<open>Model\<close> set to the configured non-reasoning model, \<open>Stream\<close> set to false and
  \<open>Messages\<close> replaced; every streamed call in the trace is the caller's request with the
  caller's own \<open>Model\<close>, \<open>Stream\<close> set to true and \<open>Messages\<close> replaced.  In both, all
  other fields of the caller's request are unchanged.  A request with at least one
  message always leads to the summarization call.
\<close>

theorem outbound_requests_keep_other_fields:
  assumes "chatApiHandler cfg remote corpus (Inr request) = (calls, outcome)"
  shows "(CreateChatCompletionCall r \<in> set calls \<longrightarrow>
            r = request\<lparr>ChatCompletionRequest.Model := ModelWithoutThinking cfg, Stream := False,
                        Messages := Messages r\<rparr>
            \<and> ChatCompletionRequest.more r = ChatCompletionRequest.more request)
       \<and> (CreateChatCompletionStreamCall r \<in> set calls \<longrightarrow>
            r = request\<lparr>ChatCompletionRequest.Model := ChatCompletionRequest.Model request,
                        Stream := True, Messages := Messages r\<rparr>
            \<and> ChatCompletionRequest.more r = ChatCompletionRequest.more request)
       \<and> (Messages request \<noteq> [] \<longrightarrow> (\<exists>r1. CreateChatCompletionCall r1 \<in> set calls))"
  using assms
  by (auto simp: chatApiHandler_def Let_def index_def split: sum.splits failure.splits if_splits)

theorem outbound_requests_keep_other_fields_witness:
  "ChatCompletionRequest.more
     \<lparr>ChatCompletionRequest.Model = ''Qwen/Qwen2.5-7B-Instruct'',
      Messages = [\<lparr>Role = ''system'', Content = textSummarize\<rparr>,
                  \<lparr>Role = ''user'', Content = ''1. [role=user] What is X?'' @ [newline, newline]\<rparr>],
      Stream = False, MaxTokens = 256, Temperature = 1 / 5\<rparr>
     = \<lparr>MaxTokens = 256, Temperature = 1 / 5\<rparr>
   \<and> ChatCompletionRequest.more
     \<lparr>ChatCompletionRequest.Model = ''auto'',
      Messages = [\<lparr>Role = ''system'', Content = ''Be terse''\<rparr>,
                  \<lparr>Role = ''user'',
                   Content = textAnswer @ ''What is X?'' @ [newline, newline] @ twoDocumentsContext\<rparr>],
      Stream = True, MaxTokens = 256, Temperature = 1 / 5\<rparr>
     = \<lparr>MaxTokens = 256, Temperature = 1 / 5\<rparr>"
proof -
  have m: "Messages \<lparr>ChatCompletionRequest.Model = ''auto'', Messages = terse, Stream = False,
                     MaxTokens = 256, Temperature = 1 / 5\<rparr> = terse"
    by simp
  have e: "chatApiHandler defaultConfig (cannedRemote standalone \<lparr>Frames = [], Ending = EOF\<rparr>)
             twoDocuments
             (Inr \<lparr>ChatCompletionRequest.Model = ''auto'', Messages = terse, Stream = False,
                   MaxTokens = 256, Temperature = 1 / 5\<rparr>) =
     ([CreateChatCompletionCall
        \<lparr>ChatCompletionRequest.Model = ''Qwen/Qwen2.5-7B-Instruct'',
         Messages = [\<lparr>Role = ''system'', Content = textSummarize\<rparr>,
                     \<lparr>Role = ''user'', Content = ''1. [role=user] What is X?'' @ [newline, newline]\<rparr>],
         Stream = False, MaxTokens = 256, Temperature = 1 / 5\<rparr>,
       RunRAGCall ''What is X?'',
       CreateChatCompletionStreamCall
        \<lparr>ChatCompletionRequest.Model = ''auto'',
         Messages = [\<lparr>Role = ''system'', Content = ''Be terse''\<rparr>,
                     \<lparr>Role = ''user'',
                      Content = textAnswer @ ''What is X?'' @ [newline, newline] @ twoDocumentsContext\<rparr>],
         Stream = True, MaxTokens = 256, Temperature = 1 / 5\<rparr>],
      Inr (streamResponse \<lparr>Frames = [], Ending = EOF\<rparr>))"
    by (simp add: chatApiHandler_canned [OF m])
  from outbound_requests_keep_other_fields [OF e,
      of "\<lparr>ChatCompletionRequest.Model = ''Qwen/Qwen2.5-7B-Instruct'',
         Messages = [\<lparr>Role = ''system'', Content = textSummarize\<rparr>,
                     \<lparr>Role = ''user'', Content = ''1. [role=user] What is X?'' @ [newline, newline]\<rparr>],
         Stream = False, MaxTokens = 256, Temperature = 1 / 5\<rparr>"]
  have a: "ChatCompletionRequest.more
     \<lparr>ChatCompletionRequest.Model = ''Qwen/Qwen2.5-7B-Instruct'',
      Messages = [\<lparr>Role = ''system'', Content = textSummarize\<rparr>,
                  \<lparr>Role = ''user'', Content = ''1. [role=user] What is X?'' @ [newline, newline]\<rparr>],
      Stream = False, MaxTokens = 256, Temperature = 1 / 5\<rparr>
     = \<lparr>MaxTokens = 256, Temperature = 1 / 5\<rparr>"
    by simp
  from outbound_requests_keep_other_fields [OF e,
      of "\<lparr>ChatCompletionRequest.Model = ''auto'',
         Messages = [\<lparr>Role = ''system'', Content = ''Be terse''\<rparr>,
                     \<lparr>Role = ''user'',
                      Content = textAnswer @ ''What is X?'' @ [newline, newline] @ twoDocumentsContext\<rparr>],
         Stream = True, MaxTokens = 256, Temperature = 1 / 5\<rparr>"]
  have b: "ChatCompletionRequest.more
     \<lparr>ChatCompletionRequest.Model = ''auto'',
      Messages = [\<lparr>Role = ''system'', Content = ''Be terse''\<rparr>,
                  \<lparr>Role = ''user'',
                   Content = textAnswer @ ''What is X?'' @ [newline, newline] @ twoDocumentsContext\<rparr>],
      Stream = True, MaxTokens = 256, Temperature = 1 / 5\<rparr>
     = \<lparr>MaxTokens = 256, Temperature = 1 / 5\<rparr>"
    by simp
  from a b show ?thesis by (rule conjI)
qed

end
